theory Spec2Isabelle
  imports Complex_Main "HOL-Library.AList"
begin

section \<open>Values, documents and the database\<close>

text \<open>
  The backend (\<^verbatim>\<open>gemini_backend.js\<close>) moves JSON values between three outside parties:
  the Gemini completion endpoint, the Gemini embedding endpoint and a MongoDB database.
  JSON values are a datatype; numbers are read as the real numbers they denote (the
  pipelines only compare them and test them against zero, which is exact on doubles).
\<close>

datatype json =
    JNull
  | JBool bool
  | JNum real
  | JStr string
  | JArr "json list"
  | JObj "(string \<times> json) list"

text \<open>
  A stored document: the \<^verbatim>\<open>_id\<close> every MongoDB document carries, and its other
  attributes in their stored order.
\<close>

record doc =
  doc_id :: json
  attrs :: "(string \<times> json) list"

type_synonym vector = "real list"

text \<open>
  The steps the program takes against the outside world, in the order it takes them.
  The program itself keeps no such list; it is what an observer of the network and of
  the database would write down, and claims about what happens before what are stated on it.
\<close>

datatype prompt =
    QUERY_AGENT_PROMPT
  | SECURITY_AGENT_PROMPT
  | OPTIMIZATION_AGENT_PROMPT
  | VALIDATION_AGENT_PROMPT
  | RAG_AGENT_PROMPT
  | UPDATE_AGENT_PROMPT
  | UPDATE_SECURITY_AGENT_PROMPT

datatype event =
    ModelCall prompt string
  | EmbedCall string
  | DbFindOne string json
  | DbFind string json
  | DbUpdateMany string json json
  | DbUpdateOne string json json
  | DbInsertOne string "(string \<times> json) list"
  | DbVectorSearch string vector
  | EmbeddingFailed string
  | DimensionsMismatch nat nat

text \<open>
  \<^verbatim>\<open>db = mongoClient.db("Employees")\<close>: every collection of the database by name
  (\<^verbatim>\<open>Permissions\<close> and \<^verbatim>\<open>AuditLogs\<close> are collections like any other), the counter
  behind the ids of inserted documents, and the observer's list of steps.
\<close>

record state =
  collections :: "string \<Rightarrow> doc list"
  nextId :: nat
  trace :: "event list"

text \<open>
  Every \<^verbatim>\<open>throw\<close> of the backend is a plain \<^verbatim>\<open>Error\<close> with a message; the constructors
  name the place that throws, after the error kinds of the specification.
  \<^item> \<open>EmptyQueryError\<close>: \<^verbatim>\<open>Gemini was called with an empty query.\<close>
  \<^item> \<open>UpstreamError\<close>: a failed request, a blocked or empty reply, a reply that does not parse.
  \<^item> \<open>SecurityRejectedError reason\<close>: \<^verbatim>\<open>Query blocked by security\<close>, \<^verbatim>\<open>Update blocked by security\<close>.
  \<^item> \<open>AccessDeniedError role collection\<close>: \<^verbatim>\<open>Role '...' has no access to '...'\<close>.
  \<^item> \<open>TypeError\<close>: a method called on a value that does not have it.
  \<^item> \<open>DatabaseError\<close>: the store refuses the operation.
\<close>

datatype error =
    EmptyQueryError
  | UpstreamError string
  | SecurityRejectedError string
  | AccessDeniedError string string
  | TypeError
  | DatabaseError

text \<open>The replies the pipelines read fields of, with the fields they read.\<close>

record security_check =
  isSafe :: bool
  reason :: string

record validation =
  isUseful :: bool
  confidence :: real
  suggestion :: string

record update_query =
  q_filter :: json
  q_update :: json

record user =
  user_id :: string
  role :: string

text \<open>
  Everything the program does not contain itself is a parameter:
  \<^item> the completion endpoint under each system prompt, as a function of the user text
    (\<^verbatim>\<open>callGemini\<close> after its guard: the request, the checks of the response and
    \<^verbatim>\<open>JSON.parse\<close>); a reply is given the shape its prompt prescribes and the pipeline reads;
  \<^item> the embedding endpoint;
  \<^item> the store's reading of a filter and of an update document written by the model
    (\<open>None\<close>: the store refuses it), and its similarity search;
  \<^item> the runtime's \<^verbatim>\<open>JSON.stringify\<close>, its rendering of a number in a template string,
    and the clock read by \<^verbatim>\<open>new Date()\<close>;
  \<^item> the timing of a hybrid request in which both pipelines throw: whether the retrieval
    pipeline's rejection arrives before the query pipeline's.
\<close>

record env =
  queryAgent :: "string \<Rightarrow> error + json"
  securityAgent :: "string \<Rightarrow> error + security_check"
  optimizationAgent :: "string \<Rightarrow> error + json"
  validationAgent :: "string \<Rightarrow> error + validation"
  ragAgent :: "string \<Rightarrow> error + string"
  updateAgent :: "string \<Rightarrow> error + update_query"
  updateSecurityAgent :: "string \<Rightarrow> error + security_check"
  embedding :: "string \<Rightarrow> error + vector"
  storeFilter :: "json \<Rightarrow> (doc \<Rightarrow> bool) option"
  storeUpdate :: "json \<Rightarrow> ((string \<times> json) list \<Rightarrow> (string \<times> json) list) option"
  vectorSearch :: "doc list \<Rightarrow> vector \<Rightarrow> (doc \<times> real) list option"
  stringify :: "json \<Rightarrow> string"
  numberToString :: "real \<Rightarrow> string"
  now :: real
  retrievalRejectsFirst :: bool

section \<open>Asynchronous steps that may throw\<close>

text \<open>
  An \<^verbatim>\<open>async\<close> function reads and changes the state and either returns or throws.
  What it did before it threw stays done, so the state comes back in both cases.
  \<open>await m f\<close> is \<^verbatim>\<open>const x = await m; f(x)\<close>.
\<close>

type_synonym 'a io = "state \<Rightarrow> (error + 'a) \<times> state"

definition ret :: "'a \<Rightarrow> 'a io" where
  "ret x = (\<lambda>s. (Inr x, s))"

definition throw :: "error \<Rightarrow> 'a io" where
  "throw e = (\<lambda>s. (Inl e, s))"

definition await :: "'a io \<Rightarrow> ('a \<Rightarrow> 'b io) \<Rightarrow> 'b io" where
  "await m f = (\<lambda>s. case m s of (Inl e, s') \<Rightarrow> (Inl e, s') | (Inr x, s') \<Rightarrow> f x s')"

text \<open>An expression that is evaluated in place and may throw.\<close>

definition evaluate :: "error + 'a \<Rightarrow> 'a io" where
  "evaluate r = (\<lambda>s. (r, s))"

definition observe :: "event \<Rightarrow> state \<Rightarrow> state" where
  "observe e s = s\<lparr>trace := trace s @ [e]\<rparr>"

section \<open>The Gemini helpers\<close>

text \<open>
  \<^verbatim>\<open>callGemini(systemPrompt, userQuery, apiKey, isJson)\<close>: an empty \<^verbatim>\<open>userQuery\<close> throws
  before any request is sent; otherwise the request goes out and the endpoint's reply,
  or its failure, is the result.
\<close>

definition callGemini :: "(string \<Rightarrow> error + 'a) \<Rightarrow> prompt \<Rightarrow> string \<Rightarrow> 'a io" where
  "callGemini endpoint systemPrompt userQuery =
     (\<lambda>s. if userQuery = [] then (Inl EmptyQueryError, s)
          else (endpoint userQuery, observe (ModelCall systemPrompt userQuery) s))"

text \<open>\<^verbatim>\<open>getEmbedding(text, apiKey)\<close> of the backend: a failed request is rethrown.\<close>

definition getEmbedding :: "env \<Rightarrow> string \<Rightarrow> vector io" where
  "getEmbedding env text = (\<lambda>s. (embedding env text, observe (EmbedCall text) s))"

subsection \<open>The summary text of a document\<close>

text \<open>JavaScript's truthiness and \<^verbatim>\<open>String(v)\<close> on a value read from a document
  (\<open>None\<close> is \<^verbatim>\<open>undefined\<close>, a missing attribute).\<close>

fun js_truthy :: "json option \<Rightarrow> bool" where
  "js_truthy None = False"
| "js_truthy (Some JNull) = False"
| "js_truthy (Some (JBool b)) = b"
| "js_truthy (Some (JNum x)) = (x \<noteq> 0)"
| "js_truthy (Some (JStr s)) = (s \<noteq> [])"
| "js_truthy (Some (JArr xs)) = True"
| "js_truthy (Some (JObj kvs)) = True"

fun join_comma :: "string list \<Rightarrow> string" where
  "join_comma [] = []"
| "join_comma [x] = x"
| "join_comma (x # y # ys) = x @ '','' @ join_comma (y # ys)"

fun js_toString :: "(real \<Rightarrow> string) \<Rightarrow> json \<Rightarrow> string" where
  "js_toString ns JNull = ''null''"
| "js_toString ns (JBool b) = (if b then ''true'' else ''false'')"
| "js_toString ns (JNum x) = ns x"
| "js_toString ns (JStr s) = s"
| "js_toString ns (JArr xs) =
     join_comma (map (\<lambda>x. if x = JNull then [] else js_toString ns x) xs)"
| "js_toString ns (JObj kvs) = ''[object Object]''"

text \<open>\<^verbatim>\<open>${doc.Name || 'N/A'}\<close>\<close>

definition or_NA :: "(real \<Rightarrow> string) \<Rightarrow> doc \<Rightarrow> string \<Rightarrow> string" where
  "or_NA ns d k =
     (case map_of (attrs d) k of
        None \<Rightarrow> ''N/A''
      | Some v \<Rightarrow> if js_truthy (Some v) then js_toString ns v else ''N/A'')"

text \<open>
  The characters that \<^verbatim>\<open>trim()\<close> strips and \<^verbatim>\<open>\s\<close> matches. A character of the model is
  a code unit below 256; among these JavaScript counts tab, line feed, vertical tab, form
  feed, carriage return, space and the no-break space U+00A0. Its other white space
  (U+1680, U+2000 to U+200A, U+2028, U+2029, U+202F, U+205F, U+3000, U+FEFF) lies beyond
  this alphabet.
\<close>

definition is_space :: "char \<Rightarrow> bool" where
  "is_space c =
     (c \<in> {CHR 0x09, CHR 0x0A, CHR 0x0B, CHR 0x0C, CHR 0x0D, CHR '' '', CHR 0xA0})"

text \<open>\<^verbatim>\<open>.trim()\<close>\<close>

definition trim :: "string \<Rightarrow> string" where
  "trim s = rev (dropWhile is_space (rev (dropWhile is_space s)))"

text \<open>\<^verbatim>\<open>.replace(/\s+/g, ' ')\<close>\<close>

function collapse_spaces :: "string \<Rightarrow> string" where
  "collapse_spaces [] = []"
| "collapse_spaces (c # cs) =
     (if is_space c then CHR '' '' # collapse_spaces (dropWhile is_space cs)
      else c # collapse_spaces cs)"
  by pat_completeness auto
termination
  by (relation "measure length") (auto simp: length_dropWhile_le less_Suc_eq_le)

definition nl :: string where
  "nl = [CHR 0x0A]"

definition createTextForEmbedding :: "(real \<Rightarrow> string) \<Rightarrow> doc \<Rightarrow> string" where
  "createTextForEmbedding ns d =
     collapse_spaces (trim (
       nl @ ''    Manager Name: '' @ or_NA ns d ''Name'' @ '','' @
       nl @ ''    CGPA: '' @ or_NA ns d ''CGPA'' @ '','' @
       nl @ ''    Branch: '' @ or_NA ns d ''Branch'' @ '','' @
       nl @ ''    Role: '' @ or_NA ns d ''Role'' @ '','' @
       nl @ ''    Company: '' @ or_NA ns d ''Company'' @ '','' @
       nl @ ''    CTC: '' @ or_NA ns d ''CTC'' @ '' LPA,'' @
       nl @ ''    Details: '' @ or_NA ns d ''Details'' @
       nl @ ''  ''))"

section \<open>Database operations\<close>

text \<open>
  The filters the program writes itself are equalities on one attribute. MongoDB matches
  \<^verbatim>\<open>{k: v}\<close> on a document whose attribute \<open>k\<close> is \<open>v\<close> or is an array holding \<open>v\<close>.
\<close>

definition field_is :: "string \<Rightarrow> json \<Rightarrow> doc \<Rightarrow> bool" where
  "field_is k v d =
     (case map_of (attrs d) k of
        None \<Rightarrow> False
      | Some (JArr xs) \<Rightarrow> JArr xs = v \<or> v \<in> set xs
      | Some w \<Rightarrow> w = v)"

text \<open>\<^verbatim>\<open>db.collection("Permissions").findOne({ role: user.role })\<close>\<close>

definition permission_record :: "state \<Rightarrow> string \<Rightarrow> doc option" where
  "permission_record s r = find (field_is ''role'' (JStr r)) (collections s ''Permissions'')"

definition findOne_role :: "string \<Rightarrow> doc option io" where
  "findOne_role r =
     (\<lambda>s. (Inr (permission_record s r),
           observe (DbFindOne ''Permissions'' (JObj [(''role'', JStr r)])) s))"

text \<open>\<^verbatim>\<open>collection.find(filter).toArray()\<close> with a filter written by the model.\<close>

definition find_docs :: "env \<Rightarrow> string \<Rightarrow> json \<Rightarrow> doc list io" where
  "find_docs env coll f =
     (\<lambda>s. (case storeFilter env f of
              None \<Rightarrow> Inl DatabaseError
            | Some m \<Rightarrow> Inr (filter m (collections s coll)),
           observe (DbFind coll f) s))"

text \<open>\<^verbatim>\<open>.project({ docEmbedding: 0 })\<close>\<close>

definition project_out :: "string \<Rightarrow> doc \<Rightarrow> doc" where
  "project_out k d = d\<lparr>attrs := AList.delete k (attrs d)\<rparr>"

text \<open>
  \<^verbatim>\<open>collection.insertOne(document)\<close>: the document is appended under a fresh \<^verbatim>\<open>_id\<close>.
\<close>

definition insertOne :: "string \<Rightarrow> (string \<times> json) list \<Rightarrow> unit io" where
  "insertOne coll fs =
     (\<lambda>s. (Inr (),
           observe (DbInsertOne coll fs)
             (s\<lparr>collections := (collections s)
                   (coll := collections s coll @
                      [\<lparr>doc_id = JObj [(''$oid'', JNum (real (nextId s)))], attrs = fs\<rparr>]),
                 nextId := Suc (nextId s)\<rparr>)))"

text \<open>
  \<^verbatim>\<open>collection.updateMany(filter, update)\<close> with a filter and an update written by the
  model: every matching document is rewritten, and \<^verbatim>\<open>modifiedCount\<close> counts the matching
  documents that the update really changed.
\<close>

definition apply_update :: "((string \<times> json) list \<Rightarrow> (string \<times> json) list) \<Rightarrow> doc \<Rightarrow> doc" where
  "apply_update g d = d\<lparr>attrs := g (attrs d)\<rparr>"

definition updateMany :: "env \<Rightarrow> string \<Rightarrow> json \<Rightarrow> json \<Rightarrow> nat io" where
  "updateMany env coll f u =
     (\<lambda>s. case (storeFilter env f, storeUpdate env u) of
            (Some m, Some g) \<Rightarrow>
              (Inr (length (filter (\<lambda>d. m d \<and> apply_update g d \<noteq> d) (collections s coll))),
               observe (DbUpdateMany coll f u)
                 (s\<lparr>collections := (collections s)
                       (coll := map (\<lambda>d. if m d then apply_update g d else d)
                                  (collections s coll))\<rparr>))
          | _ \<Rightarrow> (Inl DatabaseError, observe (DbUpdateMany coll f u) s))"

text \<open>
  \<^verbatim>\<open>collection.updateOne({ _id: id }, { $set: { k: v } })\<close>: the first document with
  that \<^verbatim>\<open>_id\<close> gets attribute \<open>k\<close> set to \<open>v\<close>, in place when it has one, appended otherwise.
\<close>

fun set_first :: "json \<Rightarrow> string \<Rightarrow> json \<Rightarrow> doc list \<Rightarrow> doc list" where
  "set_first i k v [] = []"
| "set_first i k v (d # ds) =
     (if doc_id d = i then d\<lparr>attrs := AList.update k v (attrs d)\<rparr> # ds
      else d # set_first i k v ds)"

definition updateOne_set :: "string \<Rightarrow> json \<Rightarrow> string \<Rightarrow> json \<Rightarrow> unit io" where
  "updateOne_set coll i k v =
     (\<lambda>s. (Inr (),
           observe (DbUpdateOne coll (JObj [(''_id'', i)]) (JObj [(''$set'', JObj [(k, v)])]))
             (s\<lparr>collections := (collections s)
                   (coll := set_first i k v (collections s coll))\<rparr>)))"

text \<open>
  The \<^verbatim>\<open>$vectorSearch\<close> aggregation with \<^verbatim>\<open>limit: 5\<close>, followed by the \<^verbatim>\<open>$project\<close>
  stage that drops the embedding and attaches the score.
\<close>

type_synonym scored_doc = "doc \<times> real"

definition vector_search :: "env \<Rightarrow> string \<Rightarrow> vector \<Rightarrow> scored_doc list io" where
  "vector_search env coll qv =
     (\<lambda>s. (case vectorSearch env (collections s coll) qv of
              None \<Rightarrow> Inl DatabaseError
            | Some rs \<Rightarrow> Inr (map (\<lambda>(d, sc). (project_out ''docEmbedding'' d, sc)) (take 5 rs)),
           observe (DbVectorSearch coll qv) s))"

definition scored_json :: "scored_doc \<Rightarrow> json" where
  "scored_json r = JObj ((''_id'', doc_id (fst r)) # attrs (fst r) @ [(''score'', JNum (snd r))])"

section \<open>The permission check\<close>

text \<open>
  \<^verbatim>\<open>x.includes(y)\<close> for a string \<open>y\<close>: membership in an array, containment in a string,
  and a \<^verbatim>\<open>TypeError\<close> on anything else.
\<close>

fun is_substring :: "string \<Rightarrow> string \<Rightarrow> bool" where
  "is_substring sub [] = (sub = [])"
| "is_substring sub (c # cs) = (take (length sub) (c # cs) = sub \<or> is_substring sub cs)"

fun js_includes :: "json option \<Rightarrow> string \<Rightarrow> error + bool" where
  "js_includes (Some (JArr xs)) y = Inr (JStr y \<in> set xs)"
| "js_includes (Some (JStr x)) y = Inr (is_substring y x)"
| "js_includes v y = Inl TypeError"

text \<open>
  \<^verbatim>\<open>permission && (permission.allowedCollections.includes("*") ||
  permission.allowedCollections.includes(collectionName))\<close>
\<close>

definition hasPermission :: "doc option \<Rightarrow> string \<Rightarrow> error + bool" where
  "hasPermission permission collectionName =
     (case permission of
        None \<Rightarrow> Inr False
      | Some p \<Rightarrow>
          (case js_includes (map_of (attrs p) ''allowedCollections'') ''*'' of
             Inl e \<Rightarrow> Inl e
           | Inr True \<Rightarrow> Inr True
           | Inr False \<Rightarrow> js_includes (map_of (attrs p) ''allowedCollections'') collectionName))"

section \<open>Pipeline 1: natural language to query\<close>

record nl_result =
  nl_confidence :: real
  data :: "doc list"
  mongoQuery :: json
  securityCheck :: security_check
  validation :: validation

definition runNlToQueryPipeline :: "env \<Rightarrow> string \<Rightarrow> string \<Rightarrow> user \<Rightarrow> nl_result io" where
  "runNlToQueryPipeline env userInput collectionName usr =
     await (callGemini (queryAgent env) QUERY_AGENT_PROMPT userInput) (\<lambda>mongoQuery.
     await (callGemini (securityAgent env) SECURITY_AGENT_PROMPT (stringify env mongoQuery))
       (\<lambda>securityCheck.
     if \<not> isSafe securityCheck then throw (SecurityRejectedError (reason securityCheck)) else
     await (callGemini (optimizationAgent env) OPTIMIZATION_AGENT_PROMPT (stringify env mongoQuery))
       (\<lambda>optimizedQuery.
     await (callGemini (validationAgent env) VALIDATION_AGENT_PROMPT userInput) (\<lambda>validation.
     await (findOne_role (role usr)) (\<lambda>permission.
     await (evaluate (hasPermission permission collectionName)) (\<lambda>hasPermission.
     if \<not> hasPermission then throw (AccessDeniedError (role usr) collectionName) else
     await (find_docs env collectionName optimizedQuery) (\<lambda>found.
     let data = map (project_out ''docEmbedding'') found in
     await (insertOne ''AuditLogs''
              [(''userId'', JStr (user_id usr)),
               (''role'', JStr (role usr)),
               (''userInput'', JStr userInput),
               (''mongoQuery'', optimizedQuery),
               (''results'', JNum (real (length data))),
               (''timestamp'', JNum (now env))]) (\<lambda>_.
     ret \<lparr>nl_confidence = (if length data = 0 then 0 else confidence validation),
          data = data,
          mongoQuery = optimizedQuery,
          securityCheck = securityCheck,
          validation = validation\<rparr>))))))))"

section \<open>Pipeline 2: retrieval\<close>

record rag_result =
  rag_confidence :: real
  answer :: string
  rag_context :: "scored_doc list"

definition no_information :: string where
  "no_information =
     ''I'' @ [CHR 0x27] @ ''m sorry, I couldn'' @ [CHR 0x27] @
     ''t find any relevant information in the database to answer that question.''"

definition runRagPipeline :: "env \<Rightarrow> string \<Rightarrow> user \<Rightarrow> rag_result io" where
  "runRagPipeline env userInput usr =
     await (getEmbedding env userInput) (\<lambda>queryVector.
     await (vector_search env ''managers'' queryVector) (\<lambda>retrievedDocs.
     case retrievedDocs of
       [] \<Rightarrow> ret \<lparr>rag_confidence = 0, answer = no_information, rag_context = []\<rparr>
     | best # _ \<Rightarrow>
         let topScore = snd best;
             ctxt = stringify env (JArr (map scored_json retrievedDocs)) in
         await (callGemini (ragAgent env) RAG_AGENT_PROMPT
                  (''Question: '' @ userInput @ nl @ nl @ ''Context: '' @ ctxt)) (\<lambda>answer.
         ret \<lparr>rag_confidence = topScore, answer = answer, rag_context = retrievedDocs\<rparr>)))"

section \<open>Pipeline 3: update\<close>

record update_result =
  success :: bool
  modifiedCount :: nat
  reEmbeddedCount :: nat

definition update_query_json :: "update_query \<Rightarrow> json" where
  "update_query_json q = JObj [(''filter'', q_filter q), (''update'', q_update q)]"

definition embedding_json :: "vector \<Rightarrow> json" where
  "embedding_json v = JArr (map JNum v)"

text \<open>
  \<^verbatim>\<open>for (const doc of updatedDocs) { ... reEmbeddedCount++; }\<close>: the loop runs over the
  documents fetched before it, one embedding request and one write each.
\<close>

fun resync :: "env \<Rightarrow> string \<Rightarrow> doc list \<Rightarrow> nat \<Rightarrow> nat io" where
  "resync env coll [] counted = ret counted"
| "resync env coll (d # ds) counted =
     await (getEmbedding env (createTextForEmbedding (numberToString env) d)) (\<lambda>embedding.
     await (updateOne_set coll (doc_id d) ''docEmbedding'' (embedding_json embedding)) (\<lambda>_.
     resync env coll ds (counted + 1)))"

definition runUpdatePipeline :: "env \<Rightarrow> string \<Rightarrow> string \<Rightarrow> user \<Rightarrow> update_result io" where
  "runUpdatePipeline env userInput collectionName usr =
     await (findOne_role (role usr)) (\<lambda>permission.
     await (evaluate (hasPermission permission collectionName)) (\<lambda>hasPermission.
     if \<not> hasPermission then throw (AccessDeniedError (role usr) collectionName) else
     await (callGemini (updateAgent env) UPDATE_AGENT_PROMPT userInput) (\<lambda>updateQuery.
     await (callGemini (updateSecurityAgent env) UPDATE_SECURITY_AGENT_PROMPT
              (stringify env (update_query_json updateQuery))) (\<lambda>securityCheck.
     if \<not> isSafe securityCheck then throw (SecurityRejectedError (reason securityCheck)) else
     await (updateMany env collectionName (q_filter updateQuery) (q_update updateQuery))
       (\<lambda>modified.
     await (if modified > 0
            then await (find_docs env collectionName (q_filter updateQuery)) (\<lambda>updatedDocs.
                 resync env collectionName updatedDocs 0)
            else ret 0) (\<lambda>reEmbedded.
     await (insertOne ''AuditLogs''
              [(''userId'', JStr (user_id usr)),
               (''role'', JStr (role usr)),
               (''userInput'', JStr userInput),
               (''mongoQuery'', update_query_json updateQuery),
               (''modifiedCount'', JNum (real modified)),
               (''timestamp'', JNum (now env))]) (\<lambda>_.
     ret \<lparr>success = True, modifiedCount = modified, reEmbeddedCount = reEmbedded\<rparr>)))))))"

section \<open>The endpoints\<close>

text \<open>\<^verbatim>\<open>const user = { id: "user-123", role: "Admin" }; // Hard-coded user\<close>\<close>

definition hard_coded_user :: user where
  "hard_coded_user = \<lparr>user_id = ''user-123'', role = ''Admin''\<rparr>"

datatype hybrid_response =
    BadRequest
  | NlToQueryWinner nl_result
  | RagWinner rag_result
  | ServerError error

text \<open>
  \<^verbatim>\<open>POST /api/hybrid-query\<close>. \<^verbatim>\<open>Promise.all\<close> starts both pipelines and cancels neither:
  each runs to its own end, and the request fails when either of them throws. The
  retrieval pipeline reads collection \<^verbatim>\<open>managers\<close> and writes nothing, and the query
  pipeline writes only the audit collection, so the order in which their steps interleave
  does not change what either returns; the model runs the query pipeline first. When both
  throw, \<^verbatim>\<open>Promise.all\<close> rejects with the first rejection to arrive, which is a matter of
  timing: \<open>retrievalRejectsFirst\<close> says which one it is.
\<close>

definition hybrid_query :: "env \<Rightarrow> string \<Rightarrow> string \<Rightarrow> state \<Rightarrow> hybrid_response \<times> state" where
  "hybrid_query env userInput collectionName s =
     (if userInput = [] \<or> collectionName = [] then (BadRequest, s)
      else
        (case runNlToQueryPipeline env userInput collectionName hard_coded_user s of
           (r1, s1) \<Rightarrow>
             (case runRagPipeline env userInput hard_coded_user s1 of
                (r2, s2) \<Rightarrow>
                  (case r1 of
                     Inl e1 \<Rightarrow>
                       (case r2 of
                          Inl e2 \<Rightarrow>
                            (ServerError (if retrievalRejectsFirst env then e2 else e1), s2)
                        | Inr ragResult \<Rightarrow> (ServerError e1, s2))
                   | Inr nlResult \<Rightarrow>
                       (case r2 of
                          Inl e \<Rightarrow> (ServerError e, s2)
                        | Inr ragResult \<Rightarrow>
                            if nl_confidence nlResult > rag_confidence ragResult
                            then (NlToQueryWinner nlResult, s2)
                            else (RagWinner ragResult, s2))))))"

datatype update_response =
    UpdateBadRequest
  | UpdateSuccess update_result
  | UpdateServerError error

text \<open>\<^verbatim>\<open>POST /api/update-query\<close>\<close>

definition update_query_endpoint ::
  "env \<Rightarrow> string \<Rightarrow> string \<Rightarrow> state \<Rightarrow> update_response \<times> state" where
  "update_query_endpoint env userInput collectionName s =
     (if userInput = [] \<or> collectionName = [] then (UpdateBadRequest, s)
      else
        (case runUpdatePipeline env userInput collectionName hard_coded_user s of
           (Inl e, s') \<Rightarrow> (UpdateServerError e, s')
         | (Inr r, s') \<Rightarrow> (UpdateSuccess r, s')))"

section \<open>The backfill script\<close>

text \<open>
  The script that first fills the embeddings of collection \<^verbatim>\<open>managers\<close>. Its own
  \<^verbatim>\<open>getEmbedding\<close> catches a failed request, reports it and returns \<^verbatim>\<open>null\<close>.
\<close>

definition EMBEDDING_DIMENSIONS :: nat where
  "EMBEDDING_DIMENSIONS = 768"

definition getEmbedding_backfill :: "env \<Rightarrow> string \<Rightarrow> vector option io" where
  "getEmbedding_backfill env text =
     (\<lambda>s. case embedding env text of
            Inl e \<Rightarrow> (Inr None, observe (EmbeddingFailed text) (observe (EmbedCall text) s))
          | Inr v \<Rightarrow> (Inr (Some v), observe (EmbedCall text) s))"

fun backfill :: "env \<Rightarrow> doc list \<Rightarrow> nat \<Rightarrow> nat io" where
  "backfill env [] count = ret count"
| "backfill env (d # ds) count =
     await (getEmbedding_backfill env (createTextForEmbedding (numberToString env) d))
       (\<lambda>embedding.
     case embedding of
       None \<Rightarrow> backfill env ds count
     | Some v \<Rightarrow>
         if length v \<noteq> EMBEDDING_DIMENSIONS
         then (\<lambda>s. backfill env ds count
                      (observe (DimensionsMismatch (length v) EMBEDDING_DIMENSIONS) s))
         else await (updateOne_set ''managers'' (doc_id d) ''docEmbedding'' (embedding_json v))
                (\<lambda>_. backfill env ds (count + 1)))"

text \<open>
  \<^verbatim>\<open>collection.find({ docEmbedding: { $exists: false } }).toArray()\<close>, then the loop;
  nothing is done when every document has an embedding.
\<close>

definition createEmbeddings :: "env \<Rightarrow> nat io" where
  "createEmbeddings env =
     (\<lambda>s. let documentsToProcess =
                 filter (\<lambda>d. map_of (attrs d) ''docEmbedding'' = None) (collections s ''managers'');
               s' = observe (DbFind ''managers''
                      (JObj [(''docEmbedding'', JObj [(''$exists'', JBool False)])])) s
           in if length documentsToProcess = 0 then (Inr 0, s')
              else backfill env documentsToProcess 0 s')"

section \<open>A small database and its services\<close>

text \<open>
  The concrete inputs of the examples below: three managers, two of them namesakes, the
  permission records of two roles, and replies of the outside services.
\<close>

definition kangan :: doc where
  "kangan = \<lparr>doc_id = JNum 1,
     attrs = [(''Name'', JStr ''Kangan Gupta''), (''Branch'', JStr ''CO''), (''CTC'', JNum 50)]\<rparr>"

definition namesake :: doc where
  "namesake = \<lparr>doc_id = JNum 2,
     attrs = [(''Name'', JStr ''Kangan Gupta''), (''Branch'', JStr ''IT''), (''CTC'', JNum 70)]\<rparr>"

definition vidit :: doc where
  "vidit = \<lparr>doc_id = JNum 3,
     attrs = [(''Name'', JStr ''Vidit Tayal''), (''Branch'', JStr ''CO''), (''CTC'', JNum 40)]\<rparr>"

definition admin_permission :: doc where
  "admin_permission = \<lparr>doc_id = JNum 4,
     attrs = [(''role'', JStr ''Admin''), (''allowedCollections'', JArr [JStr ''*''])]\<rparr>"

definition guest_permission :: doc where
  "guest_permission = \<lparr>doc_id = JNum 5,
     attrs = [(''role'', JStr ''Guest''), (''allowedCollections'', JArr [JStr ''interns''])]\<rparr>"

definition example_db :: state where
  "example_db =
     \<lparr>collections = (\<lambda>c. if c = ''managers'' then [kangan, namesake, vidit]
                         else if c = ''Permissions'' then [admin_permission, guest_permission]
                         else []),
      nextId = 0,
      trace = []\<rparr>"

definition guest :: user where
  "guest = \<lparr>user_id = ''user-456'', role = ''Guest''\<rparr>"

text \<open>The filters and updates of the examples, and the text \<^verbatim>\<open>JSON.stringify\<close> gives each.\<close>

definition branch_CO :: json where
  "branch_CO = JObj [(''Branch'', JStr ''CO'')]"

definition name_kangan :: json where
  "name_kangan = JObj [(''Name'', JStr ''Kangan Gupta'')]"

definition where_true :: json where
  "where_true = JObj [(''$where'', JStr ''true'')]"

definition set_ctc :: "real \<Rightarrow> json" where
  "set_ctc x = JObj [(''$set'', JObj [(''CTC'', JNum x)])]"

definition kangan_to_70 :: update_query where
  "kangan_to_70 = \<lparr>q_filter = name_kangan, q_update = set_ctc 70\<rparr>"

definition refusal :: update_query where
  "refusal = \<lparr>q_filter = JObj [], q_update = JObj []\<rparr>"

definition everyone_to_50 :: update_query where
  "everyone_to_50 = \<lparr>q_filter = JObj [], q_update = set_ctc 50\<rparr>"

definition found_kangan :: json where
  "found_kangan = JArr [scored_json (project_out ''docEmbedding'' kangan, 0.8)]"

definition example_stringify :: "json \<Rightarrow> string" where
  \<open>example_stringify j =
     (if j = branch_CO then ''{"Branch":"CO"}''
      else if j = where_true then ''{"$where":"true"}''
      else if j = update_query_json kangan_to_70
        then ''{"filter":{"Name":"Kangan Gupta"},"update":{"$set":{"CTC":70}}}''
      else if j = update_query_json refusal then ''{"filter":{},"update":{}}''
      else if j = update_query_json everyone_to_50
        then ''{"filter":{},"update":{"$set":{"CTC":50}}}''
      else if j = found_kangan
        then ''[{"_id":1,"Name":"Kangan Gupta","Branch":"CO","CTC":50,"score":0.8}]''
      else ''null'')\<close>

text \<open>
  The store's reading of the documents the examples send it: a filter that is a
  conjunction of equalities on plain values, and an update made of one \<^verbatim>\<open>$set\<close>.
\<close>

fun plain :: "json \<Rightarrow> bool" where
  "plain (JBool b) = True"
| "plain (JNum x) = True"
| "plain (JStr t) = True"
| "plain j = False"

fun equalities :: "json \<Rightarrow> (doc \<Rightarrow> bool) option" where
  "equalities (JObj kvs) =
     (if list_all (\<lambda>(k, v). take 1 k \<noteq> ''$'' \<and> plain v) kvs
      then Some (\<lambda>d. list_all (\<lambda>(k, v). field_is k v d) kvs)
      else None)"
| "equalities j = None"

fun set_only :: "json \<Rightarrow> ((string \<times> json) list \<Rightarrow> (string \<times> json) list) option" where
  "set_only (JObj [(operator, JObj kvs)]) =
     (if operator = ''$set'' then Some (fold (\<lambda>(k, v). AList.update k v) kvs) else None)"
| "set_only j = None"

definition full_vector :: vector where
  "full_vector = replicate 768 0.5"

definition short_vector :: vector where
  "short_vector = [0.5, 0.25, 0.125]"

definition safe_query :: security_check where
  "safe_query = \<lparr>isSafe = True, reason = ''Query uses safe find operators.''\<rparr>"

definition unsafe_where :: security_check where
  "unsafe_where =
     \<lparr>isSafe = False, reason = ''Query contains potentially dangerous operators like $where.''\<rparr>"

definition safe_update :: security_check where
  "safe_update = \<lparr>isSafe = True, reason = ''Update uses $set operator and a specific filter.''\<rparr>"

definition unsafe_empty :: security_check where
  "unsafe_empty = \<lparr>isSafe = False, reason = ''Update filter is empty. This is too broad.''\<rparr>"

definition specific :: validation where
  "specific = \<lparr>isUseful = True, confidence = 0.8, suggestion = ''Query is clear and specific.''\<rparr>"

text \<open>
  The services of the examples. Both security agents answer as their prompts tell them
  on the documents of the examples; the similarity search returns the first document of
  the collection with score 0.8.
\<close>

definition example_env :: env where
  "example_env =
     \<lparr>queryAgent = (\<lambda>q. Inr branch_CO),
      securityAgent = (\<lambda>q. if q = example_stringify where_true then Inr unsafe_where
                            else Inr safe_query),
      optimizationAgent = (\<lambda>q. Inr branch_CO),
      validationAgent = (\<lambda>q. Inr specific),
      ragAgent = (\<lambda>q. Inr ''Kangan Gupta is in the CO branch with a CTC of 50 LPA.''),
      updateAgent = (\<lambda>q. Inr kangan_to_70),
      updateSecurityAgent =
        (\<lambda>q. if q = example_stringify (update_query_json kangan_to_70) then Inr safe_update
             else Inr unsafe_empty),
      embedding = (\<lambda>t. Inr full_vector),
      storeFilter = equalities,
      storeUpdate = set_only,
      vectorSearch = (\<lambda>docs qv. Some (map (\<lambda>d. (d, 0.8)) (take 1 docs))),
      stringify = example_stringify,
      numberToString = (\<lambda>x. if x = 40 then ''40'' else if x = 70 then ''70'' else ''50''),
      now = 0,
      retrievalRejectsFirst = False\<rparr>"

text \<open>An optimizer that rewrites the filter it is given into a \<^verbatim>\<open>$where\<close> clause, which
  the store evaluates to true on every document.\<close>

definition rewriting_env :: env where
  "rewriting_env =
     example_env\<lparr>optimizationAgent := (\<lambda>q. Inr where_true),
                 storeFilter := (\<lambda>j. if j = where_true then Some (\<lambda>d. True) else equalities j)\<rparr>"

text \<open>An update agent that answers with an empty filter, and a security agent that lets it pass.\<close>

definition lenient_env :: env where
  "lenient_env =
     example_env\<lparr>updateAgent := (\<lambda>q. Inr everyone_to_50),
                 updateSecurityAgent := (\<lambda>q. Inr safe_update)\<rparr>"

text \<open>An update agent that refuses an ambiguous request, as its prompt tells it to.\<close>

definition refusing_env :: env where
  "refusing_env = example_env\<lparr>updateAgent := (\<lambda>q. Inr refusal)\<rparr>"

text \<open>A completion endpoint that is down.\<close>

definition outage_env :: env where
  "outage_env =
     example_env\<lparr>queryAgent := (\<lambda>q. Inl (UpstreamError ''Gemini API request failed: 503''))\<rparr>"

text \<open>An embedding endpoint that answers with three numbers.\<close>

definition short_env :: env where
  "short_env = example_env\<lparr>embedding := (\<lambda>t. Inr short_vector)\<rparr>"

section \<open>Observations on a run\<close>

text \<open>The steps a run added to the list: those of \<open>s'\<close> that come after those of \<open>s\<close>.\<close>

definition new_events :: "state \<Rightarrow> state \<Rightarrow> event list" where
  "new_events s s' = drop (length (trace s)) (trace s')"

text \<open>The texts sent to the embedding endpoint, the texts sent for translation, the
  collections read with a filter written by the model, and the collections searched by
  similarity, each in order.\<close>

fun embedded_texts :: "event list \<Rightarrow> string list" where
  "embedded_texts [] = []"
| "embedded_texts (EmbedCall t # es) = t # embedded_texts es"
| "embedded_texts (e # es) = embedded_texts es"

fun translated_texts :: "event list \<Rightarrow> string list" where
  "translated_texts [] = []"
| "translated_texts (ModelCall QUERY_AGENT_PROMPT t # es) = t # translated_texts es"
| "translated_texts (e # es) = translated_texts es"

fun queried_collections :: "event list \<Rightarrow> string list" where
  "queried_collections [] = []"
| "queried_collections (DbFind c f # es) = c # queried_collections es"
| "queried_collections (e # es) = queried_collections es"

fun searched_collections :: "event list \<Rightarrow> string list" where
  "searched_collections [] = []"
| "searched_collections (DbVectorSearch c v # es) = c # searched_collections es"
| "searched_collections (e # es) = searched_collections es"

text \<open>
  The query pipeline gets as far as its permission check: the input is not empty, the
  four model calls before the check answer, and the security agent calls the filter safe.
\<close>

definition reaches_authorization :: "env \<Rightarrow> string \<Rightarrow> bool" where
  "reaches_authorization env userInput =
     (userInput \<noteq> [] \<and>
      (case queryAgent env userInput of
         Inl e \<Rightarrow> False
       | Inr translated \<Rightarrow>
           stringify env translated \<noteq> [] \<and>
           (case securityAgent env (stringify env translated) of
              Inl e \<Rightarrow> False
            | Inr verdict \<Rightarrow>
                isSafe verdict \<and>
                (case optimizationAgent env (stringify env translated) of
                   Inl e \<Rightarrow> False
                 | Inr optimized \<Rightarrow>
                     (case validationAgent env userInput of
                        Inl e \<Rightarrow> False
                      | Inr scored \<Rightarrow> True)))))"

text \<open>A step of the re-embedding loop: a request to the embedding endpoint, or a write
  that sets the embedding attribute of one document of the collection and nothing else.\<close>

definition resync_event :: "string \<Rightarrow> event \<Rightarrow> bool" where
  "resync_event coll e =
     (case e of
        EmbedCall t \<Rightarrow> True
      | DbUpdateOne c f u \<Rightarrow>
          c = coll \<and>
          (\<exists>i v. f = JObj [(''_id'', i)] \<and> u = JObj [(''$set'', JObj [(''docEmbedding'', v)])])
      | _ \<Rightarrow> False)"

text \<open>The state after one successful turn of the re-embedding loop.\<close>

definition resync_write :: "env \<Rightarrow> string \<Rightarrow> doc \<Rightarrow> vector \<Rightarrow> state \<Rightarrow> state" where
  "resync_write env coll d v s =
     snd (updateOne_set coll (doc_id d) ''docEmbedding'' (embedding_json v)
            (observe (EmbedCall (createTextForEmbedding (numberToString env) d)) s))"

text \<open>A document with the embedding of its summary text stored on it, as one turn of the
  loop does when the endpoint answers.\<close>

definition with_embedding :: "env \<Rightarrow> doc \<Rightarrow> doc" where
  "with_embedding env d =
     (case embedding env (createTextForEmbedding (numberToString env) d) of
        Inl e \<Rightarrow> d
      | Inr v \<Rightarrow> d\<lparr>attrs := AList.update ''docEmbedding'' (embedding_json v) (attrs d)\<rparr>)"

text \<open>A step of the backfill script that is not a write of an embedding whose length
  differs from the declared one.\<close>

definition backfill_event :: "event \<Rightarrow> bool" where
  "backfill_event e =
     (case e of
        DbUpdateOne c f u \<Rightarrow>
          (\<exists>i v. f = JObj [(''_id'', i)]
                \<and> u = JObj [(''$set'', JObj [(''docEmbedding'', embedding_json v)])]
                \<and> length v = EMBEDDING_DIMENSIONS)
      | _ \<Rightarrow> True)"

section \<open>Basic facts\<close>

lemmas io_defs = ret_def throw_def await_def evaluate_def observe_def callGemini_def
  getEmbedding_def findOne_role_def find_docs_def insertOne_def updateMany_def
  updateOne_set_def vector_search_def

lemmas run_defs = runNlToQueryPipeline_def runRagPipeline_def runUpdatePipeline_def
  hybrid_query_def io_defs permission_record_def hasPermission_def
  field_is_def project_out_def apply_update_def update_query_json_def scored_json_def
  hard_coded_user_def

lemmas example_defs = example_env_def example_db_def kangan_def namesake_def vidit_def
  admin_permission_def guest_permission_def guest_def branch_CO_def name_kangan_def
  where_true_def set_ctc_def kangan_to_70_def refusal_def everyone_to_50_def
  found_kangan_def example_stringify_def safe_query_def unsafe_where_def safe_update_def
  unsafe_empty_def specific_def rewriting_env_def lenient_env_def refusing_env_def
  outage_env_def short_env_def

lemma new_events_append: "trace s' = trace s @ evs \<Longrightarrow> new_events s s' = evs"
  by (simp add: new_events_def)

lemma new_events_upd [simp]: "new_events s (s'\<lparr>trace := trace s @ evs\<rparr>) = evs"
  by (simp add: new_events_def)

lemma new_events_same [simp]: "new_events s s = []"
  by (simp add: new_events_def)

lemma await_Inr:
  "(await m f s = (Inr y, s')) = (\<exists>x s1. m s = (Inr x, s1) \<and> f x s1 = (Inr y, s'))"
  by (auto simp: await_def split: prod.splits sum.splits)

lemma permission_record_trace [simp]:
  "permission_record (s\<lparr>trace := t\<rparr>) r = permission_record s r"
  by (simp add: permission_record_def)

lemma embedded_texts_append: "embedded_texts (xs @ ys) = embedded_texts xs @ embedded_texts ys"
  by (induction xs rule: embedded_texts.induct) simp_all

lemma translated_texts_append:
  "translated_texts (xs @ ys) = translated_texts xs @ translated_texts ys"
  by (induction xs rule: translated_texts.induct) simp_all

lemma queried_collections_append:
  "queried_collections (xs @ ys) = queried_collections xs @ queried_collections ys"
  by (induction xs rule: queried_collections.induct) simp_all

lemma searched_collections_append:
  "searched_collections (xs @ ys) = searched_collections xs @ searched_collections ys"
  by (induction xs rule: searched_collections.induct) simp_all

subsection \<open>The re-embedding loop\<close>

lemma set_first_frame:
  "map (project_out k) (set_first i k v ds) = map (project_out k) ds"
  by (induction ds) (simp_all add: project_out_def delete_update_same)

lemma resync_Cons_ok:
  "embedding env (createTextForEmbedding (numberToString env) d) = Inr v \<Longrightarrow>
   resync env coll (d # ds) n s = resync env coll ds (n + 1) (resync_write env coll d v s)"
  by (simp add: resync_write_def await_def getEmbedding_def updateOne_set_def)

lemma resync_Cons_fail:
  "embedding env (createTextForEmbedding (numberToString env) d) = Inl e \<Longrightarrow>
   resync env coll (d # ds) n s =
     (Inl e, observe (EmbedCall (createTextForEmbedding (numberToString env) d)) s)"
  by (simp add: await_def getEmbedding_def)

lemma resync_write_collections:
  "collections (resync_write env coll d v s) =
     (collections s)
       (coll := set_first (doc_id d) ''docEmbedding'' (embedding_json v) (collections s coll))"
  by (simp add: resync_write_def updateOne_set_def observe_def)

lemma resync_write_trace:
  "trace (resync_write env coll d v s) =
     trace s @ [EmbedCall (createTextForEmbedding (numberToString env) d),
                DbUpdateOne coll (JObj [(''_id'', doc_id d)])
                  (JObj [(''$set'', JObj [(''docEmbedding'', embedding_json v)])])]"
  by (simp add: resync_write_def updateOne_set_def observe_def)

lemma resync_count:
  "resync env coll ds n s = (Inr k, s') \<Longrightarrow> k = n + length ds"
proof (induction ds arbitrary: n s)
  case Nil
  then show ?case by (simp add: ret_def)
next
  case (Cons d ds)
  show ?case
  proof (cases "embedding env (createTextForEmbedding (numberToString env) d)")
    case (Inl e)
    with Cons.prems show ?thesis by (simp add: resync_Cons_fail del: resync.simps)
  next
    case (Inr v)
    with Cons.prems have "resync env coll ds (n + 1) (resync_write env coll d v s) = (Inr k, s')"
      by (simp add: resync_Cons_ok del: resync.simps)
    from Cons.IH[OF this] show ?thesis by simp
  qed
qed

lemma resync_frame:
  "map (project_out ''docEmbedding'') (collections (snd (resync env coll ds n s)) c) =
   map (project_out ''docEmbedding'') (collections s c)"
proof (induction ds arbitrary: n s)
  case Nil
  then show ?case by (simp add: ret_def)
next
  case (Cons d ds)
  show ?case
  proof (cases "embedding env (createTextForEmbedding (numberToString env) d)")
    case (Inl e)
    then show ?thesis by (simp add: resync_Cons_fail observe_def del: resync.simps)
  next
    case (Inr v)
    then show ?thesis
      by (simp add: resync_Cons_ok Cons.IH resync_write_collections set_first_frame
            del: resync.simps)
  qed
qed

lemma resync_trace:
  "\<exists>evs. trace (snd (resync env coll ds n s)) = trace s @ evs
         \<and> list_all (resync_event coll) evs"
proof (induction ds arbitrary: n s)
  case Nil
  then show ?case by (simp add: ret_def)
next
  case (Cons d ds)
  show ?case
  proof (cases "embedding env (createTextForEmbedding (numberToString env) d)")
    case (Inl e)
    then show ?thesis
      by (simp add: resync_Cons_fail observe_def resync_event_def del: resync.simps)
  next
    case (Inr v)
    from Cons.IH[of "n + 1" "resync_write env coll d v s"] obtain evs where
      evs: "trace (snd (resync env coll ds (n + 1) (resync_write env coll d v s))) =
              trace (resync_write env coll d v s) @ evs"
        "list_all (resync_event coll) evs"
      by blast
    have "list_all (resync_event coll)
            ([EmbedCall (createTextForEmbedding (numberToString env) d),
              DbUpdateOne coll (JObj [(''_id'', doc_id d)])
                (JObj [(''$set'', JObj [(''docEmbedding'', embedding_json v)])])] @ evs)"
      using evs(2) by (simp add: resync_event_def)
    then show ?thesis
      using Inr evs(1) by (simp add: resync_Cons_ok resync_write_trace del: resync.simps)
  qed
qed

lemma set_first_distinct:
  "distinct (map doc_id ds) \<Longrightarrow>
   set_first i k v ds =
     map (\<lambda>x. if doc_id x = i then x\<lparr>attrs := AList.update k v (attrs x)\<rparr> else x) ds"
proof (induction ds)
  case Nil
  then show ?case by simp
next
  case (Cons d ds)
  show ?case
  proof (cases "doc_id d = i")
    case True
    with Cons.prems have "\<forall>x \<in> set ds. doc_id x \<noteq> i" by (auto simp: image_iff)
    then have "map (\<lambda>x. if doc_id x = i then x\<lparr>attrs := AList.update k v (attrs x)\<rparr> else x) ds = ds"
      by (induction ds) auto
    with True show ?thesis by simp
  next
    case False
    with Cons show ?thesis by simp
  qed
qed

lemma resync_embedded_texts:
  "resync env coll ds n s = (Inr k, s') \<Longrightarrow>
   embedded_texts (new_events s s') = map (createTextForEmbedding (numberToString env)) ds
   \<and> list_all (\<lambda>d. \<not> isl (embedding env (createTextForEmbedding (numberToString env) d))) ds"
proof (induction ds arbitrary: n s)
  case Nil
  then show ?case by (simp add: ret_def)
next
  case (Cons d ds)
  let ?t = "createTextForEmbedding (numberToString env) d"
  show ?case
  proof (cases "embedding env ?t")
    case (Inl e)
    with Cons.prems show ?thesis by (simp add: resync_Cons_fail del: resync.simps)
  next
    case (Inr v)
    let ?s1 = "resync_write env coll d v s"
    from Inr Cons.prems have loop: "resync env coll ds (n + 1) ?s1 = (Inr k, s')"
      by (simp add: resync_Cons_ok del: resync.simps)
    from resync_trace[of env coll ds "n + 1" ?s1] loop obtain evs where
      evs: "trace s' = trace ?s1 @ evs" by auto
    then have e1: "new_events ?s1 s' = evs" by (rule new_events_append)
    have "trace s' = trace s @ ([EmbedCall ?t,
                DbUpdateOne coll (JObj [(''_id'', doc_id d)])
                  (JObj [(''$set'', JObj [(''docEmbedding'', embedding_json v)])])] @ evs)"
      using evs by (simp add: resync_write_trace)
    then have e2: "new_events s s' = [EmbedCall ?t,
                DbUpdateOne coll (JObj [(''_id'', doc_id d)])
                  (JObj [(''$set'', JObj [(''docEmbedding'', embedding_json v)])])] @ evs"
      by (rule new_events_append)
    from Cons.IH[OF loop] e1 e2 Inr show ?thesis by simp
  qed
qed

lemma with_embedding_id [simp]: "doc_id (with_embedding env d) = doc_id d"
  by (simp add: with_embedding_def split: sum.split)

lemma resync_collections:
  assumes "resync env coll ds n s = (Inr k, s')"
    and "distinct (map doc_id (collections s coll))"
    and "set ds \<subseteq> set (collections s coll)"
    and "distinct ds"
  shows "collections s' =
           (collections s)
             (coll := map (\<lambda>x. if x \<in> set ds then with_embedding env x else x)
                        (collections s coll))"
  using assms
proof (induction ds arbitrary: n s)
  case Nil
  then show ?case by (simp add: ret_def)
next
  case (Cons d ds)
  let ?t = "createTextForEmbedding (numberToString env) d"
  let ?docs = "collections s coll"
  show ?case
  proof (cases "embedding env ?t")
    case (Inl e)
    with Cons.prems show ?thesis by (simp add: resync_Cons_fail del: resync.simps)
  next
    case (Inr v)
    let ?s1 = "resync_write env coll d v s"
    let ?f = "\<lambda>x. if doc_id x = doc_id d
                   then x\<lparr>attrs := AList.update ''docEmbedding'' (embedding_json v) (attrs x)\<rparr>
                   else x"
    let ?g = "\<lambda>x. if x \<in> set ds then with_embedding env x else x"
    from Inr Cons.prems have loop: "resync env coll ds (n + 1) ?s1 = (Inr k, s')"
      by (simp add: resync_Cons_ok del: resync.simps)
    have inj: "inj_on doc_id (set ?docs)"
      using Cons.prems(2) by (simp add: distinct_map)
    have d_in: "d \<in> set ?docs" using Cons.prems(3) by simp
    have d_out: "d \<notin> set ds" using Cons.prems(4) by simp
    have same: "x = d" if "x \<in> set ?docs" "doc_id x = doc_id d" for x
      using inj d_in that by (auto dest: inj_onD)
    have f_d: "?f d = with_embedding env d"
      using Inr by (simp add: with_embedding_def)
    have f_eq: "?f x = (if x = d then with_embedding env d else x)" if "x \<in> set ?docs" for x
      using same[OF that] f_d by auto
    have docs1: "collections ?s1 coll = map ?f ?docs"
      by (simp add: resync_write_collections set_first_distinct[OF Cons.prems(2)])
    have ids1: "distinct (map doc_id (collections ?s1 coll))"
    proof -
      have eq: "map doc_id (map ?f ?docs) = map doc_id ?docs" by simp
      show ?thesis unfolding docs1 eq by (rule Cons.prems(2))
    qed
    have sub1: "set ds \<subseteq> set (collections ?s1 coll)"
    proof
      fix x assume x: "x \<in> set ds"
      then have xin: "x \<in> set ?docs" using Cons.prems(3) by auto
      from x d_out have "x \<noteq> d" by auto
      with f_eq[OF xin] have "?f x = x" by simp
      with xin have "x \<in> ?f ` set ?docs" by force
      with docs1 show "x \<in> set (collections ?s1 coll)" by simp
    qed
    have dist1: "distinct ds" using Cons.prems(4) by simp
    have we_out: "with_embedding env d \<notin> set ds"
    proof
      assume a: "with_embedding env d \<in> set ds"
      then have "with_embedding env d \<in> set ?docs" using Cons.prems(3) by auto
      then have "with_embedding env d = d" by (rule same) simp
      with a d_out show False by simp
    qed
    have comp: "?g (?f x) = (if x \<in> set (d # ds) then with_embedding env x else x)"
      if "x \<in> set ?docs" for x
      using f_eq[OF that] we_out d_out by auto
    have "map ?g (map ?f ?docs) =
          map (\<lambda>x. if x \<in> set (d # ds) then with_embedding env x else x) ?docs"
      unfolding map_map by (rule map_cong) (simp_all only: comp o_apply)
    then have mapeq: "map ?g (collections ?s1 coll) =
          map (\<lambda>x. if x \<in> set (d # ds) then with_embedding env x else x) ?docs"
      by (simp only: docs1)
    have c1: "collections ?s1 = (collections s)(coll := collections ?s1 coll)"
      by (simp add: resync_write_collections)
    have "collections s' = (collections ?s1)(coll := map ?g (collections ?s1 coll))"
      by (rule Cons.IH[OF loop ids1 sub1 dist1])
    also have "\<dots> = ((collections s)(coll := collections ?s1 coll))
                        (coll := map ?g (collections ?s1 coll))"
      using c1 by (rule arg_cong)
    also have "\<dots> = (collections s)(coll := map ?g (collections ?s1 coll))"
      by (rule fun_upd_upd)
    finally show ?thesis by (simp only: mapeq)
  qed
qed

lemma filter_after_update:
  "\<forall>d \<in> set ds. m d \<longrightarrow> m (h d) \<Longrightarrow>
   filter m (map (\<lambda>d. if m d then h d else d) ds) = map h (filter m ds)"
  by (induction ds) auto

lemma nothing_modified:
  "length (filter (\<lambda>d. m d \<and> h d \<noteq> d) ds) = 0 \<Longrightarrow> map (\<lambda>d. if m d then h d else d) ds = ds"
  by (induction ds) (auto split: if_splits)

lemma take_after_insert: "length (f c) = n \<Longrightarrow> take n ((f(a := f a @ ys)) c) = f c"
  by auto

lemma apply_update_id [simp]: "doc_id (apply_update g d) = doc_id d"
  by (simp add: apply_update_def)

subsection \<open>The permission check\<close>





subsection \<open>The steps of the two query pipelines\<close>

lemma nl_events:
  assumes "userInput \<noteq> []"
  shows "\<exists>evs. trace (snd (runNlToQueryPipeline env userInput collectionName usr s)) = trace s @ evs
           \<and> embedded_texts evs = []
           \<and> translated_texts evs = [userInput]
           \<and> queried_collections evs =
               (if reaches_authorization env userInput
                   \<and> hasPermission (permission_record s (role usr)) collectionName = Inr True
                then [collectionName] else [])
           \<and> searched_collections evs = []"
  using assms
  by (auto simp add: runNlToQueryPipeline_def await_def findOne_role_def evaluate_def throw_def
        ret_def observe_def callGemini_def find_docs_def insertOne_def Let_def
        reaches_authorization_def split: sum.split option.split)

lemma nl_returns_reaches:
  assumes "runNlToQueryPipeline env userInput collectionName usr s = (Inr r, s')"
  shows "reaches_authorization env userInput
       \<and> hasPermission (permission_record s (role usr)) collectionName = Inr True"
  using assms unfolding runNlToQueryPipeline_def io_defs reaches_authorization_def
  by (auto simp: Let_def split: if_splits sum.splits option.splits prod.splits)

lemma rag_events:
  "\<exists>evs. trace (snd (runRagPipeline env userInput usr s)) = trace s @ evs
           \<and> embedded_texts evs = [userInput]
           \<and> translated_texts evs = []
           \<and> queried_collections evs = []
           \<and> searched_collections evs =
                (case embedding env userInput of Inl e \<Rightarrow> [] | Inr v \<Rightarrow> [''managers''])"
  by (simp add: runRagPipeline_def await_def ret_def
        observe_def callGemini_def getEmbedding_def vector_search_def Let_def
        split: sum.split option.split list.split)

lemma rag_writes_nothing:
  "collections (snd (runRagPipeline env userInput usr s)) = collections s"
  by (simp add: runRagPipeline_def await_def getEmbedding_def vector_search_def ret_def
        observe_def callGemini_def Let_def split: sum.split option.split list.split)

lemma hybrid_state:
  assumes "userInput \<noteq> []" and "collectionName \<noteq> []"
  shows "snd (hybrid_query env userInput collectionName s) =
           snd (runRagPipeline env userInput hard_coded_user
                  (snd (runNlToQueryPipeline env userInput collectionName hard_coded_user s)))"
  using assms by (simp add: hybrid_query_def split: prod.split sum.split)

section \<open>The claims\<close>

subsection \<open>C1: the executed filter and the safety check\<close>

text \<open>
  C1 says that the filter run against the collection, which is the optimizer's output,
  has passed the safety check before it runs. The pipeline sends the translated filter
  to the security agent, then sends the same translated filter to the optimizer, and
  runs whatever the optimizer answers: that answer is never shown to the security agent.
  In the run below the translated filter \<^verbatim>\<open>{"Branch":"CO"}\<close> is judged safe, the
  optimizer answers \<^verbatim>\<open>{"$where":"true"}\<close>, a filter this very security agent rejects,
  and the pipeline runs it and returns every manager. The only request to the security
  agent carries the text of the translated filter.
\<close>

theorem C1_optimized_filter_runs_unchecked:
  "securityAgent rewriting_env (stringify rewriting_env where_true) = Inr unsafe_where
 \<and> trace (snd (runNlToQueryPipeline rewriting_env ''show CO managers'' ''managers''
                  hard_coded_user example_db)) =
     [ModelCall QUERY_AGENT_PROMPT ''show CO managers'',
      ModelCall SECURITY_AGENT_PROMPT (example_stringify branch_CO),
      ModelCall OPTIMIZATION_AGENT_PROMPT (example_stringify branch_CO),
      ModelCall VALIDATION_AGENT_PROMPT ''show CO managers'',
      DbFindOne ''Permissions'' (JObj [(''role'', JStr ''Admin'')]),
      DbFind ''managers'' where_true,
      DbInsertOne ''AuditLogs''
        [(''userId'', JStr ''user-123''), (''role'', JStr ''Admin''),
         (''userInput'', JStr ''show CO managers''), (''mongoQuery'', where_true),
         (''results'', JNum 3), (''timestamp'', JNum 0)]]
 \<and> fst (runNlToQueryPipeline rewriting_env ''show CO managers'' ''managers''
            hard_coded_user example_db) =
     Inr \<lparr>nl_confidence = 0.8, data = [kangan, namesake, vidit], mongoQuery = where_true,
          securityCheck = safe_query, validation = specific\<rparr>"
  by (simp add: run_defs example_defs)

subsection \<open>C2: permission check and audit entry of the retrieval pipeline\<close>

text \<open>
  C2 says that in every hybrid request the retrieval pipeline, like the query pipeline,
  consults the permission records and appends an audit entry, so that two audit entries
  are written. The retrieval pipeline does neither. After the hybrid request below the
  audit collection holds one entry, the query pipeline's, and the steps the retrieval
  pipeline added are an embedding request, a similarity search and a completion request:
  no read of the permission records, no insert.
\<close>

theorem C2_retrieval_unchecked_unaudited:
  "length (collections (snd (hybrid_query example_env ''show CO managers'' ''managers'' example_db))
            ''AuditLogs'') = 1
 \<and> new_events
       (snd (runNlToQueryPipeline example_env ''show CO managers'' ''managers''
               hard_coded_user example_db))
       (snd (hybrid_query example_env ''show CO managers'' ''managers'' example_db)) =
     [EmbedCall ''show CO managers'',
      DbVectorSearch ''managers'' full_vector,
      ModelCall RAG_AGENT_PROMPT
        (''Question: show CO managers'' @ nl @ nl @ ''Context: '' @ example_stringify found_kangan)]"
  by (simp add: run_defs example_defs new_events_def)

subsection \<open>C3: the update safety check\<close>

text \<open>
  As stated, the claim says that an update with an empty filter is always rejected. The
  pipeline itself never looks at the filter or at the operators: it asks the update
  security agent and follows its verdict. In the run below the translated filter is
  empty, the agent answers that the update is safe, and the update runs on every
  manager: two records change.
\<close>

theorem C3_empty_filter_update_runs:
  "q_filter everyone_to_50 = JObj []
 \<and> updateAgent lenient_env ''Set all CO branch CTCs to 50'' = Inr everyone_to_50
 \<and> fst (runUpdatePipeline lenient_env ''Set all CO branch CTCs to 50'' ''managers''
           hard_coded_user example_db) =
     Inr \<lparr>success = True, modifiedCount = 2, reEmbeddedCount = 3\<rparr>
 \<and> map (\<lambda>d. map_of (attrs d) ''CTC'')
      (collections (snd (runUpdatePipeline lenient_env ''Set all CO branch CTCs to 50''
                           ''managers'' hard_coded_user example_db)) ''managers'') =
     [Some (JNum 50), Some (JNum 50), Some (JNum 50)]
 \<and> map (\<lambda>d. map_of (attrs d) ''CTC'') (collections example_db ''managers'') =
     [Some (JNum 50), Some (JNum 70), Some (JNum 40)]"
  by (simp add: run_defs example_defs)

text \<open>
  C3, amended: for every update request of an authorised caller whose translation
  succeeds and which the update security agent judges unsafe, the pipeline aborts with
  \<open>SecurityRejectedError\<close> carrying the agent's reason before the update executes: the
  collections are unchanged, and the only steps taken are the permission lookup and the
  two model calls. Whether the filter is empty and which operators the update uses is
  judged by the agent alone.
\<close>

theorem C3_unsafe_verdict_aborts_update:
  assumes "userInput \<noteq> []"
    and "hasPermission (permission_record s (role usr)) collectionName = Inr True"
    and "updateAgent env userInput = Inr q"
    and "stringify env (update_query_json q) \<noteq> []"
    and "updateSecurityAgent env (stringify env (update_query_json q)) = Inr v"
    and "\<not> isSafe v"
  shows "fst (runUpdatePipeline env userInput collectionName usr s) =
           Inl (SecurityRejectedError (reason v))
       \<and> collections (snd (runUpdatePipeline env userInput collectionName usr s)) = collections s
       \<and> new_events s (snd (runUpdatePipeline env userInput collectionName usr s)) =
           [DbFindOne ''Permissions'' (JObj [(''role'', JStr (role usr))]),
            ModelCall UPDATE_AGENT_PROMPT userInput,
            ModelCall UPDATE_SECURITY_AGENT_PROMPT (stringify env (update_query_json q))]"
  using assms
  by (simp add: runUpdatePipeline_def await_def findOne_role_def evaluate_def throw_def
        observe_def callGemini_def)

theorem C3_unsafe_verdict_witness:
  "updateAgent refusing_env ''Set all CO branch CTCs to 50'' = Inr refusal
 \<and> \<not> isSafe unsafe_empty
 \<and> fst (runUpdatePipeline refusing_env ''Set all CO branch CTCs to 50'' ''managers''
           hard_coded_user example_db) =
     Inl (SecurityRejectedError ''Update filter is empty. This is too broad.'')
 \<and> collections (snd (runUpdatePipeline refusing_env ''Set all CO branch CTCs to 50'' ''managers''
           hard_coded_user example_db)) = collections example_db"
proof -
  have 1: "''Set all CO branch CTCs to 50'' \<noteq> []" by simp
  have 2: "hasPermission (permission_record example_db (role hard_coded_user)) ''managers'' = Inr True"
    by (simp add: run_defs example_defs)
  have 3: "updateAgent refusing_env ''Set all CO branch CTCs to 50'' = Inr refusal"
    by (simp add: refusing_env_def)
  have 4: "stringify refusing_env (update_query_json refusal) \<noteq> []"
    by (simp add: run_defs example_defs)
  have 5: "updateSecurityAgent refusing_env (stringify refusing_env (update_query_json refusal)) =
             Inr unsafe_empty"
    by (simp add: run_defs example_defs)
  have 6: "\<not> isSafe unsafe_empty" by (simp add: unsafe_empty_def)
  from C3_unsafe_verdict_aborts_update[OF 1 2 3 4 5 6] 3 6 show ?thesis
    by (simp add: unsafe_empty_def)
qed

subsection \<open>C4: arbitration\<close>

text \<open>
  C4: when both pipelines of a hybrid request have completed, the query pipeline's result
  is selected if and only if its confidence is strictly greater than the retrieval
  pipeline's; otherwise, and so on equal confidence, the retrieval result is selected.
\<close>

theorem C4_arbitration_strictly_greater:
  assumes "userInput \<noteq> []" and "collectionName \<noteq> []"
    and "runNlToQueryPipeline env userInput collectionName hard_coded_user s = (Inr nlResult, s1)"
    and "runRagPipeline env userInput hard_coded_user s1 = (Inr ragResult, s2)"
  shows "fst (hybrid_query env userInput collectionName s) =
           (if nl_confidence nlResult > rag_confidence ragResult
            then NlToQueryWinner nlResult else RagWinner ragResult)
       \<and> (fst (hybrid_query env userInput collectionName s) = NlToQueryWinner nlResult)
           = (nl_confidence nlResult > rag_confidence ragResult)"
  using assms by (simp add: hybrid_query_def)

text \<open>Both confidences are 0.8 and the retrieval result is selected.\<close>

theorem C4_tie_selects_retrieval:
  "nl_confidence (projr (fst (runNlToQueryPipeline example_env ''show CO managers'' ''managers''
                               hard_coded_user example_db))) = 0.8
 \<and> fst (hybrid_query example_env ''show CO managers'' ''managers'' example_db) =
     RagWinner \<lparr>rag_confidence = 0.8,
                answer = ''Kangan Gupta is in the CO branch with a CTC of 50 LPA.'',
                rag_context = [(kangan, 0.8)]\<rparr>"
proof -
  let ?nl = "runNlToQueryPipeline example_env ''show CO managers'' ''managers''
               hard_coded_user example_db"
  let ?rag = "runRagPipeline example_env ''show CO managers'' hard_coded_user (snd ?nl)"
  have nl: "?nl = (Inr (projr (fst ?nl)), snd ?nl)"
    by (simp add: run_defs example_defs)
  have rag: "?rag = (Inr (projr (fst ?rag)), snd ?rag)"
    by (simp add: run_defs example_defs)
  have c1: "nl_confidence (projr (fst ?nl)) = 0.8"
    by (simp add: run_defs example_defs)
  have c2: "projr (fst ?rag) =
     \<lparr>rag_confidence = 0.8,
      answer = ''Kangan Gupta is in the CO branch with a CTC of 50 LPA.'',
      rag_context = [(kangan, 0.8)]\<rparr>"
    by (simp add: run_defs example_defs)
  from C4_arbitration_strictly_greater[OF _ _ nl rag] c1 c2 show ?thesis by simp
qed

subsection \<open>C5: confidence of the query pipeline\<close>

text \<open>
  C5: in every run of the query pipeline that returns, the validation in the result is
  the validation agent's reply for the input, the records are those the store found for
  the executed filter, and the confidence is 0 when there are no records, whatever the
  agent's score, and the agent's score when there is at least one.
\<close>

theorem C5_confidence_zero_on_empty:
  assumes "runNlToQueryPipeline env userInput collectionName usr s = (Inr r, s')"
  shows "validationAgent env userInput = Inr (validation r)
       \<and> (\<exists>m. storeFilter env (mongoQuery r) = Some m
              \<and> data r = map (project_out ''docEmbedding'') (filter m (collections s collectionName)))
       \<and> nl_confidence r = (if length (data r) = 0 then 0 else confidence (validation r))"
  using assms unfolding runNlToQueryPipeline_def io_defs
  by (auto simp: Let_def split: if_splits sum.splits option.splits prod.splits)

text \<open>On the empty collection \<^verbatim>\<open>interns\<close> the score is 0.8 and the confidence 0; on
  \<^verbatim>\<open>managers\<close> two records are found and the confidence is the score.\<close>

theorem C5_confidence_witness:
  "data (projr (fst (runNlToQueryPipeline example_env ''show CO managers'' ''interns''
                       hard_coded_user example_db))) = []
 \<and> confidence (validation (projr (fst (runNlToQueryPipeline example_env ''show CO managers''
                       ''interns'' hard_coded_user example_db)))) = 0.8
 \<and> nl_confidence (projr (fst (runNlToQueryPipeline example_env ''show CO managers'' ''interns''
                       hard_coded_user example_db))) = 0
 \<and> length (data (projr (fst (runNlToQueryPipeline example_env ''show CO managers'' ''managers''
                       hard_coded_user example_db)))) = 2
 \<and> nl_confidence (projr (fst (runNlToQueryPipeline example_env ''show CO managers'' ''managers''
                       hard_coded_user example_db))) = 0.8"
proof -
  let ?a = "runNlToQueryPipeline example_env ''show CO managers'' ''interns''
              hard_coded_user example_db"
  let ?b = "runNlToQueryPipeline example_env ''show CO managers'' ''managers''
              hard_coded_user example_db"
  have a: "?a = (Inr (projr (fst ?a)), snd ?a)"
    by (simp add: run_defs example_defs)
  have b: "?b = (Inr (projr (fst ?b)), snd ?b)"
    by (simp add: run_defs example_defs)
  have da: "data (projr (fst ?a)) = []"
    and va: "confidence (validation (projr (fst ?a))) = 0.8"
    by (simp_all add: run_defs example_defs)
  have db: "length (data (projr (fst ?b))) = 2"
    and vb: "confidence (validation (projr (fst ?b))) = 0.8"
    by (simp_all add: run_defs example_defs)
  from C5_confidence_zero_on_empty[OF a] C5_confidence_zero_on_empty[OF b] da va db vb
  show ?thesis by simp
qed

subsection \<open>C6: denied roles\<close>




subsection \<open>C7: the count of re-embedded records\<close>

text \<open>
  As stated, the claim says that \<^verbatim>\<open>reEmbeddedCount\<close> is the number of records that were
  matched and modified. The loop runs over every record the filter matches after the
  update, modified or not. Below, two managers are called Kangan Gupta; one of them
  already has a CTC of 70, so setting it to 70 modifies one record and re-embeds two.
\<close>

theorem C7_unmodified_match_is_counted:
  "fst (runUpdatePipeline example_env ''Change the CTC for Kangan Gupta to 70'' ''managers''
          hard_coded_user example_db) =
     Inr \<lparr>success = True, modifiedCount = 1, reEmbeddedCount = 2\<rparr>"
  by (simp add: run_defs example_defs)

text \<open>
  C7, amended: in every run of the update pipeline that returns, the records are fetched
  again for re-embedding if and only if at least one record was modified. When none was,
  \<^verbatim>\<open>reEmbeddedCount\<close> is 0, no embedding is requested and the collection is as before.
  When some record was modified and every record the filter matched still matches it after
  the update, \<^verbatim>\<open>reEmbeddedCount\<close> is the number of records the filter matches, modified
  or not, which is at least \<^verbatim>\<open>modifiedCount\<close>; the summary text of each of them, as
  updated, is sent to the embedding endpoint, in order, and is answered; and, the ids of
  the collection being distinct, the collection afterwards holds each matched record
  updated and with that embedding stored on it, and every other record as it was.
\<close>

theorem C7_reembedded_count:
  assumes run: "runUpdatePipeline env userInput collectionName usr s = (Inr r, s')"
    and q: "updateAgent env userInput = Inr q"
    and m: "storeFilter env (q_filter q) = Some m"
    and g: "storeUpdate env (q_update q) = Some g"
  shows "modifiedCount r =
           length (filter (\<lambda>d. m d \<and> apply_update g d \<noteq> d) (collections s collectionName))
       \<and> modifiedCount r \<le> length (filter m (collections s collectionName))
       \<and> (DbFind collectionName (q_filter q) \<in> set (new_events s s')) = (0 < modifiedCount r)
       \<and> (if modifiedCount r = 0
          then reEmbeddedCount r = 0
             \<and> embedded_texts (new_events s s') = []
             \<and> take (length (collections s collectionName)) (collections s' collectionName) =
                 collections s collectionName
          else ((\<forall>d \<in> set (collections s collectionName). m d \<longrightarrow> m (apply_update g d)) \<longrightarrow>
                 reEmbeddedCount r = length (filter m (collections s collectionName))
               \<and> embedded_texts (new_events s s') =
                   map (\<lambda>d. createTextForEmbedding (numberToString env) (apply_update g d))
                     (filter m (collections s collectionName))
               \<and> list_all (\<lambda>d. \<not> isl (embedding env
                     (createTextForEmbedding (numberToString env) (apply_update g d))))
                     (filter m (collections s collectionName))
               \<and> (distinct (map doc_id (collections s collectionName)) \<longrightarrow>
                    take (length (collections s collectionName)) (collections s' collectionName) =
                      map (\<lambda>d. if m d then with_embedding env (apply_update g d) else d)
                        (collections s collectionName))))"
proof -
  let ?docs = "collections s collectionName"
  let ?n = "length (filter (\<lambda>d. m d \<and> apply_update g d \<noteq> d) ?docs)"
  let ?docs' = "map (\<lambda>d. if m d then apply_update g d else d) ?docs"
  let ?text = "createTextForEmbedding (numberToString env)"
  let ?pre = "[DbFindOne ''Permissions'' (JObj [(''role'', JStr (role usr))]),
               ModelCall UPDATE_AGENT_PROMPT userInput,
               ModelCall UPDATE_SECURITY_AGENT_PROMPT (stringify env (update_query_json q)),
               DbUpdateMany collectionName (q_filter q) (q_update q)]"
  let ?entry = "[(''userId'', JStr (user_id usr)),
               (''role'', JStr (role usr)),
               (''userInput'', JStr userInput),
               (''mongoQuery'', update_query_json q),
               (''modifiedCount'', JNum (real ?n)),
               (''timestamp'', JNum (now env))]"
  let ?audit = "DbInsertOne ''AuditLogs'' ?entry"
  define s3 where
    "s3 = s\<lparr>collections := (collections s)(collectionName := ?docs'), trace := trace s @ ?pre\<rparr>"
  have le: "?n \<le> length (filter m ?docs)"
  proof -
    have "filter (\<lambda>d. m d \<and> apply_update g d \<noteq> d) ?docs =
          filter (\<lambda>d. apply_update g d \<noteq> d) (filter m ?docs)"
      by (simp add: conj_commute)
    then show ?thesis by (simp del: filter_filter)
  qed
  from run q m g have tail:
    "await (if 0 < ?n
            then await (find_docs env collectionName (q_filter q)) (\<lambda>updatedDocs.
                 resync env collectionName updatedDocs 0)
            else ret 0) (\<lambda>reEmbedded.
     await (insertOne ''AuditLogs'' ?entry) (\<lambda>_.
     ret \<lparr>success = True, modifiedCount = ?n, reEmbeddedCount = reEmbedded\<rparr>)) s3 = (Inr r, s')"
    unfolding runUpdatePipeline_def s3_def
    by (auto simp: await_Inr findOne_role_def evaluate_def callGemini_def updateMany_def
          throw_def observe_def split: if_splits)
  show ?thesis
  proof (cases "0 < ?n")
    case False
    with tail have r: "r = \<lparr>success = True, modifiedCount = ?n, reEmbeddedCount = 0\<rparr>"
      and tr: "trace s' = trace s @ (?pre @ [?audit])"
      and co: "collections s' = (collections s3)(''AuditLogs'' := collections s3 ''AuditLogs'' @
                 [\<lparr>doc_id = JObj [(''$oid'', JNum (real (nextId s3)))], attrs = ?entry\<rparr>])"
      by (auto simp: await_Inr ret_def insertOne_def observe_def s3_def)
    from False have same: "?docs' = ?docs" by (simp add: nothing_modified)
    have "length (collections s3 collectionName) = length ?docs" by (simp add: s3_def)
    then have "take (length ?docs) (collections s' collectionName) = collections s3 collectionName"
      unfolding co by (rule take_after_insert)
    then have "take (length ?docs) (collections s' collectionName) = ?docs"
      by (simp add: s3_def same)
    with False le r new_events_append[OF tr] show ?thesis by simp
  next
    case True
    let ?s4 = "observe (DbFind collectionName (q_filter q)) s3"
    let ?ds = "filter m ?docs'"
    from True tail m obtain k s5 where
      loop: "resync env collectionName ?ds 0 ?s4 = (Inr k, s5)"
      and r: "r = \<lparr>success = True, modifiedCount = ?n, reEmbeddedCount = k\<rparr>"
      and s': "trace s' = trace s5 @ [?audit]"
      and co: "collections s' = (collections s5)(''AuditLogs'' := collections s5 ''AuditLogs'' @
                 [\<lparr>doc_id = JObj [(''$oid'', JNum (real (nextId s5)))], attrs = ?entry\<rparr>])"
      by (auto simp: await_Inr ret_def insertOne_def find_docs_def observe_def s3_def)
    from resync_count[OF loop] have k: "k = length ?ds" by simp
    from resync_trace[of env collectionName ?ds 0 ?s4] loop obtain evs where
      evs: "trace s5 = trace ?s4 @ evs" "list_all (resync_event collectionName) evs"
      by auto
    have ne45: "new_events ?s4 s5 = evs" using evs(1) by (rule new_events_append)
    have "trace s' = trace s @ (?pre @ [DbFind collectionName (q_filter q)] @ evs @ [?audit])"
      using s' evs(1) by (simp add: s3_def observe_def)
    then have ev: "new_events s s' = ?pre @ [DbFind collectionName (q_filter q)] @ evs @ [?audit]"
      by (rule new_events_append)
    from resync_embedded_texts[OF loop] ne45 have
      texts: "embedded_texts evs = map ?text ?ds"
      and answered: "list_all (\<lambda>d. \<not> isl (embedding env (?text d))) ?ds"
      by simp_all
    have et: "embedded_texts (new_events s s') = map ?text ?ds"
      unfolding ev using texts by (simp add: embedded_texts_append)
    have stable_part: "reEmbeddedCount r = length (filter m ?docs)
               \<and> embedded_texts (new_events s s') =
                   map (\<lambda>d. ?text (apply_update g d)) (filter m ?docs)
               \<and> list_all (\<lambda>d. \<not> isl (embedding env (?text (apply_update g d))))
                     (filter m ?docs)
               \<and> (distinct (map doc_id ?docs) \<longrightarrow>
                    take (length ?docs) (collections s' collectionName) =
                      map (\<lambda>d. if m d then with_embedding env (apply_update g d) else d) ?docs)"
      if stable: "\<forall>d \<in> set ?docs. m d \<longrightarrow> m (apply_update g d)"
    proof -
      have ds: "?ds = map (apply_update g) (filter m ?docs)"
        using stable by (rule filter_after_update)
      have stored: "take (length ?docs) (collections s' collectionName) =
                      map (\<lambda>d. if m d then with_embedding env (apply_update g d) else d) ?docs"
        if dist: "distinct (map doc_id ?docs)"
      proof -
        have "map doc_id ?docs' = map doc_id ?docs" by simp
        with dist have d1: "distinct (map doc_id (collections ?s4 collectionName))"
          by (simp add: s3_def observe_def del: map_map)
        have sub: "set ?ds \<subseteq> set (collections ?s4 collectionName)"
          by (auto simp: s3_def observe_def)
        have "distinct ?docs'" using d1 by (simp add: s3_def observe_def distinct_map del: map_map)
        then have d2: "distinct ?ds" by simp
        have c5: "collections s5 collectionName =
                    map (\<lambda>x. if x \<in> set ?ds then with_embedding env x else x) ?docs'"
          unfolding resync_collections[OF loop d1 sub d2] by (simp add: s3_def observe_def)
        have "map (\<lambda>x. if x \<in> set ?ds then with_embedding env x else x) ?docs' =
              map (\<lambda>d. if m d then with_embedding env (apply_update g d) else d) ?docs"
          unfolding map_map using stable by (intro map_cong) auto
        with c5 have c5': "collections s5 collectionName =
              map (\<lambda>d. if m d then with_embedding env (apply_update g d) else d) ?docs"
          by simp
        then have "length (collections s5 collectionName) = length ?docs" by simp
        then have "take (length ?docs) (collections s' collectionName) =
                   collections s5 collectionName"
          unfolding co by (rule take_after_insert)
        with c5' show ?thesis by simp
      qed
      show ?thesis
        using r k et answered stored by (simp add: ds list_all_iff)
    qed
    show ?thesis
      using True le r ev stable_part by simp
  qed
qed

theorem C7_reembedded_count_witness:
  "fst (runUpdatePipeline example_env ''Change the CTC for Kangan Gupta to 70'' ''managers''
          hard_coded_user example_db) =
     Inr \<lparr>success = True, modifiedCount = 1, reEmbeddedCount = 2\<rparr>
 \<and> length (filter (the (storeFilter example_env name_kangan))
             (collections example_db ''managers'')) = 2
 \<and> DbFind ''managers'' name_kangan \<in>
     set (trace (snd (runUpdatePipeline example_env ''Change the CTC for Kangan Gupta to 70''
                        ''managers'' hard_coded_user example_db)))
 \<and> embedded_texts
     (trace (snd (runUpdatePipeline example_env ''Change the CTC for Kangan Gupta to 70''
                    ''managers'' hard_coded_user example_db))) =
     [createTextForEmbedding (numberToString example_env)
        (kangan\<lparr>attrs := [(''Name'', JStr ''Kangan Gupta''), (''Branch'', JStr ''CO''),
                           (''CTC'', JNum 70)]\<rparr>),
      createTextForEmbedding (numberToString example_env) namesake]
 \<and> take 3 (collections (snd (runUpdatePipeline example_env
                ''Change the CTC for Kangan Gupta to 70'' ''managers'' hard_coded_user example_db))
             ''managers'') =
     [kangan\<lparr>attrs := [(''Name'', JStr ''Kangan Gupta''), (''Branch'', JStr ''CO''),
                        (''CTC'', JNum 70), (''docEmbedding'', embedding_json full_vector)]\<rparr>,
      namesake\<lparr>attrs := attrs namesake @ [(''docEmbedding'', embedding_json full_vector)]\<rparr>,
      vidit]"
proof -
  let ?run = "runUpdatePipeline example_env ''Change the CTC for Kangan Gupta to 70'' ''managers''
                hard_coded_user example_db"
  let ?m = "the (storeFilter example_env name_kangan)"
  let ?g = "the (storeUpdate example_env (set_ctc 70))"
  let ?docs = "collections example_db ''managers''"
  have run: "?run = (Inr \<lparr>success = True, modifiedCount = 1, reEmbeddedCount = 2\<rparr>, snd ?run)"
    by (simp add: run_defs example_defs)
  have q: "updateAgent example_env ''Change the CTC for Kangan Gupta to 70'' = Inr kangan_to_70"
    by (simp add: example_env_def)
  have m: "storeFilter example_env (q_filter kangan_to_70) = Some ?m"
    by (simp add: run_defs example_defs)
  have g: "storeUpdate example_env (q_update kangan_to_70) = Some ?g"
    by (simp add: run_defs example_defs)
  have stable: "\<forall>d \<in> set ?docs. ?m d \<longrightarrow> ?m (apply_update ?g d)"
    by (simp add: run_defs example_defs)
  have ids: "distinct (map doc_id ?docs)"
    by (simp add: example_defs)
  have n: "length (filter ?m ?docs) = 2"
    by (simp add: run_defs example_defs)
  have len: "length ?docs = 3"
    by (simp add: example_defs)
  have matched: "filter ?m ?docs = [kangan, namesake]"
    by (simp add: run_defs example_defs)
  have upd: "map (apply_update ?g) [kangan, namesake] =
     [kangan\<lparr>attrs := [(''Name'', JStr ''Kangan Gupta''), (''Branch'', JStr ''CO''),
                        (''CTC'', JNum 70)]\<rparr>, namesake]"
    by (simp add: run_defs example_defs)
  have stored: "map (\<lambda>d. if ?m d then with_embedding example_env (apply_update ?g d) else d) ?docs =
     [kangan\<lparr>attrs := [(''Name'', JStr ''Kangan Gupta''), (''Branch'', JStr ''CO''),
                        (''CTC'', JNum 70), (''docEmbedding'', embedding_json full_vector)]\<rparr>,
      namesake\<lparr>attrs := attrs namesake @ [(''docEmbedding'', embedding_json full_vector)]\<rparr>,
      vidit]"
    by (simp add: with_embedding_def run_defs example_defs)
  have tr: "new_events example_db (snd ?run) = trace (snd ?run)"
    by (simp add: new_events_def example_db_def)
  have r: "fst ?run = Inr \<lparr>success = True, modifiedCount = 1, reEmbeddedCount = 2\<rparr>"
    by (simp add: run_defs example_defs)
  have texts: "map (\<lambda>d. createTextForEmbedding (numberToString example_env) (apply_update ?g d))
                 [kangan, namesake] =
     [createTextForEmbedding (numberToString example_env)
        (kangan\<lparr>attrs := [(''Name'', JStr ''Kangan Gupta''), (''Branch'', JStr ''CO''),
                           (''CTC'', JNum 70)]\<rparr>),
      createTextForEmbedding (numberToString example_env) namesake]"
    using upd by simp
  from C7_reembedded_count[OF run q m g] stable ids
  have "DbFind ''managers'' (q_filter kangan_to_70) \<in> set (new_events example_db (snd ?run))"
    and "embedded_texts (new_events example_db (snd ?run)) =
           map (\<lambda>d. createTextForEmbedding (numberToString example_env) (apply_update ?g d))
             (filter ?m ?docs)"
    and "take (length ?docs) (collections (snd ?run) ''managers'') =
           map (\<lambda>d. if ?m d then with_embedding example_env (apply_update ?g d) else d) ?docs"
    by simp_all
  with r n tr len matched texts stored show ?thesis
    by (simp add: kangan_to_70_def)
qed

subsection \<open>C8: the length of an embedding\<close>

text \<open>
  The backfill script checks the length of every embedding it receives: each of its
  writes stores a vector of the declared length.
\<close>

lemma backfill_event_fold:
  "length v = EMBEDDING_DIMENSIONS \<Longrightarrow>
   backfill_event (DbUpdateOne c (JObj [(''_id'', i)])
     (JObj [(''$set'', JObj [(''docEmbedding'', embedding_json v)])]))"
  by (auto simp: backfill_event_def)

lemma backfill_writes_declared_length:
  "\<exists>evs. trace (snd (backfill env ds n s)) = trace s @ evs \<and> list_all backfill_event evs"
proof (induction ds arbitrary: n s)
  case Nil
  then show ?case by (simp add: ret_def)
next
  case (Cons d ds)
  let ?t = "createTextForEmbedding (numberToString env) d"
  show ?case
  proof (cases "embedding env ?t")
    case (Inl e)
    let ?s1 = "observe (EmbeddingFailed ?t) (observe (EmbedCall ?t) s)"
    from Cons.IH[of n ?s1] obtain evs where
      "trace (snd (backfill env ds n ?s1)) = trace ?s1 @ evs" "list_all backfill_event evs"
      by blast
    then have "trace (snd (backfill env ds n ?s1)) = trace s @ ([EmbedCall ?t, EmbeddingFailed ?t] @ evs)"
      and "list_all backfill_event ([EmbedCall ?t, EmbeddingFailed ?t] @ evs)"
      by (simp_all add: observe_def backfill_event_def)
    then show ?thesis
      using Inl by (simp add: await_def getEmbedding_backfill_def del: append.simps)
  next
    case (Inr v)
    show ?thesis
    proof (cases "length v = EMBEDDING_DIMENSIONS")
      case False
      let ?s1 = "observe (DimensionsMismatch (length v) EMBEDDING_DIMENSIONS) (observe (EmbedCall ?t) s)"
      from Cons.IH[of n ?s1] obtain evs where
        "trace (snd (backfill env ds n ?s1)) = trace ?s1 @ evs" "list_all backfill_event evs"
        by blast
      then have "trace (snd (backfill env ds n ?s1)) =
          trace s @ ([EmbedCall ?t, DimensionsMismatch (length v) EMBEDDING_DIMENSIONS] @ evs)"
        and "list_all backfill_event ([EmbedCall ?t, DimensionsMismatch (length v) EMBEDDING_DIMENSIONS] @ evs)"
        by (simp_all add: observe_def backfill_event_def)
      then show ?thesis
        using Inr False by (simp add: await_def getEmbedding_backfill_def del: append.simps)
    next
      case True
      let ?w = "DbUpdateOne ''managers'' (JObj [(''_id'', doc_id d)])
                  (JObj [(''$set'', JObj [(''docEmbedding'', embedding_json v)])])"
      let ?s1 = "snd (updateOne_set ''managers'' (doc_id d) ''docEmbedding'' (embedding_json v)
                   (observe (EmbedCall ?t) s))"
      from Cons.IH[of "n + 1" ?s1] obtain evs where
        "trace (snd (backfill env ds (n + 1) ?s1)) = trace ?s1 @ evs" "list_all backfill_event evs"
        by blast
      then have "trace (snd (backfill env ds (n + 1) ?s1)) = trace s @ ([EmbedCall ?t, ?w] @ evs)"
        and "list_all backfill_event ([EmbedCall ?t, ?w] @ evs)"
        using backfill_event_fold[OF True]
        by (simp_all add: observe_def updateOne_set_def backfill_event_def del: append.simps)
      then show ?thesis
        using Inr True
        by (simp add: await_def getEmbedding_backfill_def updateOne_set_def del: append.simps)
    qed
  qed
qed

text \<open>
  C8 says that both the backfill script and the update pipeline discard and report an
  embedding whose length is not 768. The backend declares \<^verbatim>\<open>EMBEDDING_DIMENSIONS = 768\<close>
  and never reads it: the re-embedding loop of the update pipeline stores whatever the
  endpoint returns. Below the endpoint answers with three numbers; the update pipeline
  succeeds and stores them on both namesakes, while the backfill script, on the same
  database and endpoint, reports the mismatch and stores nothing.
\<close>

theorem C8_short_embedding_persisted:
  "length short_vector \<noteq> EMBEDDING_DIMENSIONS
 \<and> fst (runUpdatePipeline short_env ''Change the CTC for Kangan Gupta to 70'' ''managers''
           hard_coded_user example_db) =
     Inr \<lparr>success = True, modifiedCount = 1, reEmbeddedCount = 2\<rparr>
 \<and> collections (snd (runUpdatePipeline short_env ''Change the CTC for Kangan Gupta to 70''
                         ''managers'' hard_coded_user example_db)) ''managers'' =
     [kangan\<lparr>attrs := [(''Name'', JStr ''Kangan Gupta''), (''Branch'', JStr ''CO''),
                        (''CTC'', JNum 70), (''docEmbedding'', embedding_json short_vector)]\<rparr>,
      namesake\<lparr>attrs := attrs namesake @ [(''docEmbedding'', embedding_json short_vector)]\<rparr>,
      vidit]
 \<and> collections (snd (createEmbeddings short_env example_db)) ''managers'' =
     [kangan, namesake, vidit]
 \<and> fst (createEmbeddings short_env example_db) = Inr 0
 \<and> DimensionsMismatch 3 768 \<in> set (trace (snd (createEmbeddings short_env example_db)))"
  by (simp add: run_defs example_defs createEmbeddings_def getEmbedding_backfill_def
        EMBEDDING_DIMENSIONS_def short_vector_def)

subsection \<open>C9: what the two pipelines of a hybrid request run on\<close>

text \<open>
  As stated, the claim says that the retrieval pipeline searches the collection the
  caller names. It takes no collection at all and always searches \<^verbatim>\<open>managers\<close>. Below
  the caller names \<^verbatim>\<open>interns\<close>: the query pipeline reads \<^verbatim>\<open>interns\<close>, the similarity
  search runs on \<^verbatim>\<open>managers\<close>, and the answer returned is about a manager.
\<close>

theorem C9_retrieval_ignores_target:
  "searched_collections
     (trace (snd (hybrid_query example_env ''show CO managers'' ''interns'' example_db))) =
     [''managers'']
 \<and> queried_collections
     (trace (snd (hybrid_query example_env ''show CO managers'' ''interns'' example_db))) =
     [''interns'']
 \<and> fst (hybrid_query example_env ''show CO managers'' ''interns'' example_db) =
     RagWinner \<lparr>rag_confidence = 0.8,
                answer = ''Kangan Gupta is in the CO branch with a CTC of 50 LPA.'',
                rag_context = [(kangan, 0.8)]\<rparr>"
  by (simp add: run_defs example_defs)

text \<open>
  C9, amended: every hybrid request with a text and a collection name runs both pipelines
  on the caller's text: that text is sent once for translation and once for embedding. The
  query pipeline queries the collection the caller names and no other: it reads exactly
  that collection with its filter as soon as it gets past its permission check, so in
  every run in which it returns. The retrieval pipeline searches the fixed collection
  \<^verbatim>\<open>managers\<close>, whatever the caller names, as soon as the embedding request
  succeeds. (That the two pipelines are started together is written into \<open>hybrid_query\<close>;
  the order of their steps does not change these facts.)
\<close>

theorem C9_retrieval_searches_managers:
  assumes "userInput \<noteq> []" and "collectionName \<noteq> []"
  shows "embedded_texts (new_events s (snd (hybrid_query env userInput collectionName s))) =
           [userInput]
       \<and> translated_texts (new_events s (snd (hybrid_query env userInput collectionName s))) =
           [userInput]
       \<and> queried_collections (new_events s (snd (hybrid_query env userInput collectionName s))) =
           (if reaches_authorization env userInput
               \<and> hasPermission (permission_record s (role hard_coded_user)) collectionName = Inr True
            then [collectionName] else [])
       \<and> (isl (fst (runNlToQueryPipeline env userInput collectionName hard_coded_user s))
          \<or> queried_collections
               (new_events s (snd (hybrid_query env userInput collectionName s))) = [collectionName])
       \<and> searched_collections (new_events s (snd (hybrid_query env userInput collectionName s))) =
            (case embedding env userInput of Inl e \<Rightarrow> [] | Inr v \<Rightarrow> [''managers''])"
proof -
  let ?nl = "runNlToQueryPipeline env userInput collectionName hard_coded_user s"
  let ?s1 = "snd ?nl"
  let ?s2 = "snd (runRagPipeline env userInput hard_coded_user ?s1)"
  let ?ok = "reaches_authorization env userInput
               \<and> hasPermission (permission_record s (role hard_coded_user)) collectionName = Inr True"
  from nl_events[OF assms(1), of env collectionName hard_coded_user s] obtain evs1 where
    nl: "trace ?s1 = trace s @ evs1" "embedded_texts evs1 = []"
      "translated_texts evs1 = [userInput]"
      "queried_collections evs1 = (if ?ok then [collectionName] else [])"
      "searched_collections evs1 = []"
    by blast
  from rag_events[of env userInput hard_coded_user ?s1] obtain evs2 where
    rag: "trace ?s2 = trace ?s1 @ evs2" "embedded_texts evs2 = [userInput]"
      "translated_texts evs2 = []" "queried_collections evs2 = []"
      "searched_collections evs2 =
         (case embedding env userInput of Inl e \<Rightarrow> [] | Inr v \<Rightarrow> [''managers''])"
    by blast
  have ret: "isl (fst ?nl) \<or> ?ok"
  proof (cases "fst ?nl")
    case (Inl e)
    then show ?thesis by simp
  next
    case (Inr r)
    then have "?nl = (Inr r, snd ?nl)" by (simp add: prod_eq_iff)
    from nl_returns_reaches[OF this] show ?thesis by simp
  qed
  have "trace ?s2 = trace s @ (evs1 @ evs2)"
    using nl(1) rag(1) by simp
  then have "new_events s (snd (hybrid_query env userInput collectionName s)) = evs1 @ evs2"
    by (simp add: hybrid_state[OF assms] new_events_append)
  then show ?thesis
    using nl rag ret
    by (auto simp add: embedded_texts_append translated_texts_append queried_collections_append
          searched_collections_append)
qed

theorem C9_retrieval_witness:
  "embedded_texts
     (trace (snd (hybrid_query example_env ''show CO managers'' ''interns'' example_db))) =
     [''show CO managers'']
 \<and> translated_texts
     (trace (snd (hybrid_query example_env ''show CO managers'' ''interns'' example_db))) =
     [''show CO managers'']
 \<and> queried_collections
     (trace (snd (hybrid_query example_env ''show CO managers'' ''interns'' example_db))) =
     [''interns'']
 \<and> searched_collections
     (trace (snd (hybrid_query example_env ''show CO managers'' ''interns'' example_db))) =
     [''managers'']"
proof -
  have tr: "new_events example_db
              (snd (hybrid_query example_env ''show CO managers'' ''interns'' example_db)) =
            trace (snd (hybrid_query example_env ''show CO managers'' ''interns'' example_db))"
    by (simp add: new_events_def example_db_def)
  have e: "embedding example_env ''show CO managers'' = Inr full_vector"
    by (simp add: example_env_def)
  have reach: "reaches_authorization example_env ''show CO managers''"
    by (simp add: reaches_authorization_def run_defs example_defs)
  have perm: "hasPermission (permission_record example_db (role hard_coded_user)) ''interns'' =
                Inr True"
    by (simp add: run_defs example_defs)
  from C9_retrieval_searches_managers[of "''show CO managers''" "''interns''" example_db example_env]
    tr e reach perm
  show ?thesis by simp
qed

subsection \<open>C10: what the re-embedding loop changes\<close>

text \<open>
  C10: the re-embedding loop of the update pipeline changes nothing but embedding
  attributes. Whatever documents it runs over and wherever it stops, every collection
  holds afterwards the same documents in the same order, each with the same \<^verbatim>\<open>_id\<close> and
  the same attributes apart from \<^verbatim>\<open>docEmbedding\<close>; and each step it takes is a request to
  the embedding endpoint or a write that sets \<^verbatim>\<open>docEmbedding\<close>, and only that, on the
  document with a given \<^verbatim>\<open>_id\<close>.
\<close>

theorem C10_resync_sets_only_embedding:
  "map (project_out ''docEmbedding'') (collections (snd (resync env coll ds n s)) c) =
     map (project_out ''docEmbedding'') (collections s c)
 \<and> list_all (resync_event coll) (new_events s (snd (resync env coll ds n s)))"
proof -
  from resync_trace[of env coll ds n s] obtain evs where
    "trace (snd (resync env coll ds n s)) = trace s @ evs" "list_all (resync_event coll) evs"
    by blast
  then show ?thesis
    by (simp add: resync_frame new_events_append)
qed

end
